theory Spec2Isabelle
  imports Complex_Main
begin

section \<open>JavaScript strings and the regular expressions of \<open>backend-api.js\<close>\<close>

text \<open>
  A JavaScript string is a sequence of UTF-16 code units; the input text, and every other
  string that comes from outside the program, is a list of code units. The strings that
  the program makes itself (its literals, the section names, the messages it builds from
  them and from decimal numbers) are ASCII and are written as HOL strings; \<open>units\<close>
  gives the code units of such a string.
\<close>

type_synonym code_unit = nat

type_synonym js_string = "code_unit list"

definition units :: "string \<Rightarrow> js_string" where
  "units s = map of_char s"

text \<open>
  The case mappings of Unicode, which \<open>toUpperCase\<close> and \<open>toLowerCase\<close> apply to each
  character, for the code units below \<open>0x180\<close> (Basic Latin, Latin-1 Supplement and
  Latin Extended-A); the model leaves the code units from \<open>0x180\<close> on alone. In this range
  the upper case of \<open>0xDF\<close> is \<open>SS\<close>, the upper case of \<open>0x149\<close> has two code units as
  well, the lower case of \<open>0x130\<close> is \<open>i\<close> with a combining dot (\<open>0x307\<close>), the dotless
  \<open>0x131\<close> has the upper case \<open>I\<close> and the long s \<open>0x17F\<close> has the upper case \<open>S\<close>.

  The program applies \<open>toLowerCase\<close> to the text only to count the action verbs in it,
  and the upper case only inside \<open>Canonicalize\<close>, against ASCII pattern characters.
  \<open>toLowerCase\<close> below is the function of the language on the texts of code units below
  \<open>0x180\<close> (\<open>latin_text\<close>), and what is proved of it is stated for these texts.
\<close>

definition toUpperCase_unit :: "code_unit \<Rightarrow> js_string" where
  "toUpperCase_unit c =
     (if c < 128 then (if 97 \<le> c \<and> c \<le> 122 then [c - 32] else [c])
      else if c = 181 then [924]
      else if c = 223 then [83, 83]
      else if 224 \<le> c \<and> c \<le> 254 \<and> c \<noteq> 247 then [c - 32]
      else if c = 255 then [376]
      else if c = 305 then [73]
      else if c = 329 then [700, 78]
      else if c = 383 then [83]
      else if (256 \<le> c \<and> c \<le> 303 \<or> 306 \<le> c \<and> c \<le> 311 \<or> 330 \<le> c \<and> c \<le> 375) \<and> odd c
        then [c - 1]
      else if (313 \<le> c \<and> c \<le> 328 \<or> 377 \<le> c \<and> c \<le> 382) \<and> even c then [c - 1]
      else [c])"

definition toLowerCase_unit :: "code_unit \<Rightarrow> js_string" where
  "toLowerCase_unit c =
     (if c < 128 then (if 65 \<le> c \<and> c \<le> 90 then [c + 32] else [c])
      else if 192 \<le> c \<and> c \<le> 222 \<and> c \<noteq> 215 then [c + 32]
      else if c = 304 then [105, 775]
      else if c = 376 then [255]
      else if (256 \<le> c \<and> c \<le> 303 \<or> 306 \<le> c \<and> c \<le> 311 \<or> 330 \<le> c \<and> c \<le> 375) \<and> even c
        then [c + 1]
      else if (313 \<le> c \<and> c \<le> 328 \<or> 377 \<le> c \<and> c \<le> 382) \<and> odd c then [c + 1]
      else [c])"

definition toLowerCase :: "js_string \<Rightarrow> js_string" where
  "toLowerCase s = concat (map toLowerCase_unit s)"

text \<open>
  \<open>Canonicalize\<close> of the ECMAScript pattern semantics, for a regular expression with the
  flag \<open>i\<close> and without the flag \<open>u\<close>: the upper case of the code unit when that is one
  code unit, except that a code unit from 128 on is never taken to one below 128.
\<close>

definition canonicalize :: "code_unit \<Rightarrow> code_unit" where
  "canonicalize ch =
     (case toUpperCase_unit ch of
        [cu] \<Rightarrow> if 128 \<le> ch \<and> cu < 128 then ch else cu
      | _ \<Rightarrow> ch)"

text \<open>
  One pattern character against one code unit of the text; \<open>ic\<close> is the flag \<open>i\<close>. All
  pattern characters of the program are ASCII.
\<close>

definition char_matches :: "bool \<Rightarrow> char \<Rightarrow> code_unit \<Rightarrow> bool" where
  "char_matches ic p c =
     (if ic then canonicalize (of_char p) = canonicalize c else of_char p = c)"

text \<open>
  A run of pattern characters matched at the head of the text; the attempt fails at the
  first character that does not match.
\<close>

fun chars_match :: "bool \<Rightarrow> string \<Rightarrow> js_string \<Rightarrow> bool" where
  "chars_match ic [] s = True"
| "chars_match ic (p # ps) [] = False"
| "chars_match ic (p # ps) (c # cs) =
     (if char_matches ic p c then chars_match ic ps cs else False)"

text \<open>
  The class \<open>\s\<close>: WhiteSpace (tab, vertical tab, form feed, the byte order mark
  \<open>0xFEFF\<close> and the space separators of Unicode) and LineTerminator (line feed, carriage
  return, \<open>0x2028\<close>, \<open>0x2029\<close>).
\<close>

definition is_space :: "code_unit \<Rightarrow> bool" where
  "is_space c =
     (if c < 128 then c \<in> {9, 10, 11, 12, 13, 32}
      else c \<in> {160, 5760, 8232, 8233, 8239, 8287, 12288, 65279} \<or> (8192 \<le> c \<and> c \<le> 8202))"

text \<open>
  The regular expressions that occur in the program:
  \<^item> \<open>Headings ws\<close> is \<open>/(?:w1|...|wn):/i\<close>, the six section patterns;
  \<^item> \<open>Chars w\<close> is a pattern of literal characters without flag \<open>i\<close>: \<open>/\n\n/\<close> and
    \<open>new RegExp(verb, 'g')\<close> for the verbs, which consist of letters only;
  \<^item> \<open>Spaces\<close> is \<open>/\s+/\<close>.
  None of them has a capture group.
\<close>

datatype regex = Headings "string list" | Chars string | Spaces

text \<open>
  The alternatives of a group are tried from left to right; an alternative is taken when
  the colon after the group matches as well, otherwise the matcher backtracks into the
  next alternative.
\<close>

fun first_alternative :: "string list \<Rightarrow> js_string \<Rightarrow> nat option" where
  "first_alternative [] s = None"
| "first_alternative (w # ws) s =
     (if chars_match True (w @ '':'') s then Some (length w + 1)
      else first_alternative ws s)"

text \<open>
  \<open>exec_at r s\<close> is the match of \<open>r\<close> that starts at the first code unit of \<open>s\<close> (a
  match attempt at one fixed index): the number of code units matched, or \<open>None\<close>.
  \<open>\s+\<close> is greedy.
\<close>

fun exec_at :: "regex \<Rightarrow> js_string \<Rightarrow> nat option" where
  "exec_at (Headings ws) s = first_alternative ws s"
| "exec_at (Chars w) s = (if chars_match False w s then Some (length w) else None)"
| "exec_at Spaces s =
     (let n = length (takeWhile is_space s) in if n = 0 then None else Some n)"

text \<open>
  \<open>RegExp.prototype.test\<close> for a regular expression without the flags \<open>g\<close> and \<open>y\<close>:
  a match attempt at every index from 0 to the length of the text, until one succeeds.
\<close>

fun regex_test :: "regex \<Rightarrow> js_string \<Rightarrow> bool" where
  "regex_test r [] = (exec_at r [] \<noteq> None)"
| "regex_test r (c # cs) = (if exec_at r (c # cs) \<noteq> None then True else regex_test r cs)"

text \<open>
  \<open>String.prototype.split\<close> with a regular expression and no limit
  (\<open>RegExp.prototype[@@split]\<close>). In \<open>split_loop r acc s\<close> the text from \<open>p\<close> to \<open>q\<close> is
  \<open>acc\<close> and the text from \<open>q\<close> on is \<open>s\<close>. A match at \<open>q\<close> that ends at \<open>p\<close> (an empty
  match at \<open>q = p\<close>) is skipped; any other match closes the piece \<open>acc\<close> and moves \<open>p\<close>
  and \<open>q\<close> to its end.
\<close>

function split_loop :: "regex \<Rightarrow> js_string \<Rightarrow> js_string \<Rightarrow> js_string list" where
  "split_loop r acc [] = [acc]"
| "split_loop r acc (c # cs) =
     (case exec_at r (c # cs) of
        None \<Rightarrow> split_loop r (acc @ [c]) cs
      | Some n \<Rightarrow>
          if n = 0 \<and> acc = [] then split_loop r (acc @ [c]) cs
          else acc # split_loop r [] (drop n (c # cs)))"
  by pat_completeness auto
termination
  by (relation "measure (\<lambda>(r, acc, s). 2 * length s + (if acc = [] then 0 else 1))") auto

definition js_split :: "regex \<Rightarrow> js_string \<Rightarrow> js_string list" where
  "js_split r s =
     (if s = [] then (if exec_at r [] \<noteq> None then [] else [[]])
      else split_loop r [] s)"

text \<open>
  The number of matches of \<open>String.prototype.match\<close> with a regular expression that has
  the flag \<open>g\<close>: the search resumes at the end of the last match, one further after an
  empty match. \<open>match\<close> returns \<open>null\<close> when there is none, which \<open>|| []\<close> turns into
  the empty array, of length 0.
\<close>

fun match_count :: "regex \<Rightarrow> js_string \<Rightarrow> nat" where
  "match_count r [] = (if exec_at r [] \<noteq> None then 1 else 0)"
| "match_count r (c # cs) =
     (case exec_at r (c # cs) of
        None \<Rightarrow> match_count r cs
      | Some n \<Rightarrow>
          if n = 0 then 1 + match_count r cs
          else 1 + match_count r (drop n (c # cs)))"

text \<open>
  Two code units that are the same character up to case: one is the upper case or the
  lower case of the other. Two texts are the same up to the case of each character when
  they agree in this way position by position.
\<close>

definition case_variant :: "code_unit \<Rightarrow> code_unit \<Rightarrow> bool" where
  "case_variant c d =
     (c = d \<or> toUpperCase_unit c = [d] \<or> toLowerCase_unit c = [d]
      \<or> toUpperCase_unit d = [c] \<or> toLowerCase_unit d = [c])"

definition same_up_to_case :: "js_string \<Rightarrow> js_string \<Rightarrow> bool" where
  "same_up_to_case s t = list_all2 case_variant s t"

text \<open>
  The narrower relation in which one code unit is the lower case of the other, as for
  every pair of an ASCII letter and its other case.
\<close>

definition lower_case_variant :: "code_unit \<Rightarrow> code_unit \<Rightarrow> bool" where
  "lower_case_variant c d = (c = d \<or> toLowerCase_unit c = [d] \<or> toLowerCase_unit d = [c])"


text \<open>
  A text of code units below \<open>0x180\<close>. Such a text has no surrogate pair, so its code units
  are its characters, and it has no capital sigma, the one character whose lower case
  depends on the characters around it: \<open>toLowerCase\<close> lowers it character by character,
  by the table above.
\<close>

definition latin_text :: "js_string \<Rightarrow> bool" where
  "latin_text s = (\<forall>c \<in> set s. c < 384)"


text \<open>A number in a template literal: its decimal digits.\<close>

fun digits :: "nat \<Rightarrow> string" where
  "digits n =
     (if n < 10 then [char_of (48 + n)]
      else digits (n div 10) @ [char_of (48 + n mod 10)])"

section \<open>The section scorer\<close>

fun calculateSectionScore :: "bool \<Rightarrow> nat \<Rightarrow> int" where
  "calculateSectionScore exists wordCount =
     (if \<not> exists then 0
      else if wordCount < 20 then 40
      else if wordCount < 50 then 70
      else if wordCount < 100 then 90
      else 100)"

declare calculateSectionScore.simps [simp del]

text \<open>
  An object with string keys that are not array indices keeps its properties in insertion
  order: an association list. An assignment \<open>obj[k] = v\<close> overwrites the property in
  place or appends it.
\<close>

fun set_property :: "(string \<times> 'a) list \<Rightarrow> string \<Rightarrow> 'a \<Rightarrow> (string \<times> 'a) list" where
  "set_property [] k v = [(k, v)]"
| "set_property ((k', v') # kvs) k v =
     (if k' = k then (k, v) # kvs else (k', v') # set_property kvs k v)"

definition Object_keys :: "(string \<times> 'a) list \<Rightarrow> string list" where
  "Object_keys obj = map fst obj"

definition Object_values :: "(string \<times> 'a) list \<Rightarrow> 'a list" where
  "Object_values obj = map snd obj"

text \<open>The object \<open>sections\<close>, as \<open>Object.entries\<close> lists it.\<close>

definition sections :: "(string \<times> regex) list" where
  "sections =
     [(''contact'', Headings [''email'', ''phone'', ''address'']),
      (''education'', Headings [''education'', ''university'', ''college'', ''degree'']),
      (''experience'', Headings [''experience'', ''work'', ''employment'']),
      (''skills'', Headings [''skills'', ''technologies'', ''programming'', ''languages'']),
      (''projects'', Headings [''projects'', ''portfolio'']),
      (''achievements'', Headings [''achievements'', ''awards'', ''accomplishments''])]"

definition blank_line :: regex where
  "blank_line = Chars [CHR 0x0A, CHR 0x0A]"

text \<open>
  \<open>text.split(pattern)[1]?.split(/\n\n/)[0] || ''\<close>: an index beyond the array gives
  \<open>undefined\<close>, which \<open>?.\<close> passes on and \<open>||\<close> replaces by the empty string.
\<close>

definition sectionContent :: "regex \<Rightarrow> js_string \<Rightarrow> js_string" where
  "sectionContent pattern text =
     (case js_split pattern text of
        _ # s # _ \<Rightarrow> (case js_split blank_line s of [] \<Rightarrow> [] | x # _ \<Rightarrow> x)
      | _ \<Rightarrow> [])"

definition hasSection :: "regex \<Rightarrow> js_string \<Rightarrow> bool" where
  "hasSection pattern text = regex_test pattern text"

definition wordCount :: "regex \<Rightarrow> js_string \<Rightarrow> nat" where
  "wordCount pattern text = length (js_split Spaces (sectionContent pattern text))"

record sections_state =
  scores :: "(string \<times> int) list"
  findings :: "string list"
  recommendations :: "string list"

record AnalysisResult = sections_state +
  overallScore :: int

definition push_finding :: "string \<Rightarrow> sections_state \<Rightarrow> sections_state" where
  "push_finding x st = st\<lparr>findings := findings st @ [x]\<rparr>"

definition push_recommendation :: "string \<Rightarrow> sections_state \<Rightarrow> sections_state" where
  "push_recommendation x st = st\<lparr>recommendations := recommendations st @ [x]\<rparr>"

text \<open>One round of the loop over the sections.\<close>

definition analyze_section :: "js_string \<Rightarrow> sections_state \<Rightarrow> string \<times> regex \<Rightarrow> sections_state" where
  "analyze_section text st entry =
     (case entry of (section, pattern) \<Rightarrow>
        let st' = st\<lparr>scores := set_property (scores st) section
                     (calculateSectionScore (hasSection pattern text) (wordCount pattern text))\<rparr>
        in if \<not> hasSection pattern text then
             push_recommendation (''Add a '' @ section @ '' section to your resume'') st'
           else if wordCount pattern text < 20 then
             push_recommendation (''Expand your '' @ section @ '' section with more details'') st'
           else
             push_finding (''Strong '' @ section @ '' section with ''
                            @ digits (wordCount pattern text) @ '' words'') st')"

definition totalWords :: "js_string \<Rightarrow> nat" where
  "totalWords text = length (js_split Spaces text)"

definition check_length :: "js_string \<Rightarrow> sections_state \<Rightarrow> sections_state" where
  "check_length text st =
     (if totalWords text < 200 then
        push_recommendation ''Your resume seems too brief. Add more detailed information.'' st
      else if totalWords text > 1000 then
        push_recommendation ''Consider condensing your resume to be more concise.'' st
      else st)"

definition actionVerbs :: "string list" where
  "actionVerbs =
     [''led'', ''developed'', ''created'', ''managed'', ''implemented'', ''designed'',
      ''achieved'']"

definition actionVerbCount :: "js_string \<Rightarrow> nat" where
  "actionVerbCount text =
     foldl (\<lambda>count verb. count + match_count (Chars verb) (toLowerCase text)) 0 actionVerbs"

definition check_verbs :: "js_string \<Rightarrow> sections_state \<Rightarrow> sections_state" where
  "check_verbs text st =
     (if actionVerbCount text < 5 then
        push_recommendation ''Use more action verbs to describe your achievements'' st
      else
        push_finding (''Good use of action verbs ('' @ digits (actionVerbCount text)
                       @ '' found)'') st)"

text \<open>
  \<open>Math.round\<close> is the nearest integer, a tie going up. The quotient it is applied to
  is taken in the rationals: the dividend is a sum of at most six values among 0, 40, 70, 90
  and 100, the divisor is the number of keys, which is six (\<open>length_keys\<close>), and the sum is even
  (\<open>even_total\<close>): the quotient is a multiple of one third, never half-way between two
  integers, so the nearest double rounds as the quotient itself does.
\<close>

definition Math_round :: "rat \<Rightarrow> int" where
  "Math_round x = \<lfloor>x + 1 / 2\<rfloor>"

definition analyzeResume :: "js_string \<Rightarrow> AnalysisResult" where
  "analyzeResume text =
     (let st = foldl (analyze_section text)
                 \<lparr>scores = [], findings = [], recommendations = []\<rparr> sections;
          st = check_length text st;
          st = check_verbs text st;
          overallScore =
            Math_round (of_int (foldl (\<lambda>sum score. sum + score) 0 (Object_values (scores st)))
                        / of_nat (length (Object_keys (scores st))))
      in \<lparr>scores = scores st, findings = findings st, recommendations = recommendations st,
          overallScore = overallScore\<rparr>)"


section \<open>The request handler\<close>

text \<open>
  The handler awaits one step after the other, so the model runs them in sequence. The
  libraries and services it calls are parameters (\<open>env\<close>): each call returns a value
  or throws, and a thrown value is an \<open>Error\<close> object with a message. The blob
  container and the database container are the state (\<open>world\<close>), together with the
  error log of the hosting runtime.
\<close>

datatype js_error = Error (message: js_string)

type_synonym bytes = "nat list"

record part =
  filename :: js_string
  type :: js_string
  data :: bytes

record request =
  req_body :: bytes
  content_type :: "js_string option"

record PersistedRecord =
  record_id :: js_string
  fileName :: js_string
  blobUrl :: js_string
  analysis :: AnalysisResult
  timestamp :: js_string

record world =
  blobs :: "(js_string \<times> bytes) list"
  items :: "PersistedRecord list"
  error_log :: "js_error list"

record env =
  Buffer_from :: "bytes \<Rightarrow> js_error + bytes"
  getBoundary :: "js_string option \<Rightarrow> js_error + js_string"
  Parse :: "bytes \<Rightarrow> js_string \<Rightarrow> js_error + part list"
  fromBufferWithMime :: "js_string \<Rightarrow> bytes \<Rightarrow> js_error + js_string"
  Date_now :: nat
  block_blob_url :: "js_string \<Rightarrow> js_string"
  upload :: "js_string \<Rightarrow> bytes \<Rightarrow> nat \<Rightarrow> js_error option"
  items_create :: "PersistedRecord \<Rightarrow> js_error option"
  toISOString :: js_string

datatype response_body = Analysis AnalysisResult | Failure (error: string) (details: js_string)

record response =
  status :: nat
  body :: response_body

text \<open>
  \<open>parts[0]\<close> of an empty array is \<open>undefined\<close>, and reading \<open>resumeFile.data\<close> then
  throws a \<open>TypeError\<close> (the message is the one of V8).
\<close>

definition undefined_data :: js_error where
  "undefined_data =
     Error (units (''Cannot read properties of undefined (reading '' @ [CHR 0x27] @ ''data''
                   @ [CHR 0x27] @ '')''))"

definition blobName :: "env \<Rightarrow> part \<Rightarrow> js_string" where
  "blobName env resumeFile = units (digits (Date_now env)) @ units ''-'' @ filename resumeFile"

definition persistedRecord :: "env \<Rightarrow> part \<Rightarrow> AnalysisResult \<Rightarrow> PersistedRecord" where
  "persistedRecord env resumeFile result =
     \<lparr>record_id = blobName env resumeFile, fileName = filename resumeFile,
      blobUrl = block_blob_url env (blobName env resumeFile), analysis = result,
      timestamp = toISOString env\<rparr>"

text \<open>The body of the \<open>try\<close> block: the analysis, or the first value thrown.\<close>

definition try_block :: "env \<Rightarrow> world \<Rightarrow> request \<Rightarrow> (js_error + AnalysisResult) \<times> world" where
  "try_block env w req =
     (case Buffer_from env (req_body req) of
        Inl e \<Rightarrow> (Inl e, w)
      | Inr bodyBuffer \<Rightarrow>
     (case getBoundary env (content_type req) of
        Inl e \<Rightarrow> (Inl e, w)
      | Inr boundary \<Rightarrow>
     (case Parse env bodyBuffer boundary of
        Inl e \<Rightarrow> (Inl e, w)
      | Inr [] \<Rightarrow> (Inl undefined_data, w)
      | Inr (resumeFile # _) \<Rightarrow>
     (case fromBufferWithMime env (type resumeFile) (data resumeFile) of
        Inl e \<Rightarrow> (Inl e, w)
      | Inr text \<Rightarrow>
     (let result = analyzeResume text
      in case upload env (blobName env resumeFile) (data resumeFile)
                (length (data resumeFile)) of
        Some e \<Rightarrow> (Inl e, w)
      | None \<Rightarrow>
     (let w' = w\<lparr>blobs := blobs w @ [(blobName env resumeFile, data resumeFile)]\<rparr>
      in case items_create env (persistedRecord env resumeFile result) of
        Some e \<Rightarrow> (Inl e, w')
      | None \<Rightarrow>
          (Inr result, w'\<lparr>items := items w' @ [persistedRecord env resumeFile result]\<rparr>)))))))"

definition handler :: "env \<Rightarrow> world \<Rightarrow> request \<Rightarrow> response \<times> world" where
  "handler env w req =
     (case try_block env w req of
        (Inr result, w') \<Rightarrow> (\<lparr>status = 200, body = Analysis result\<rparr>, w')
      | (Inl e, w') \<Rightarrow>
          (\<lparr>status = 500, body = Failure ''Failed to process resume'' (message e)\<rparr>,
           w'\<lparr>error_log := error_log w' @ [e]\<rparr>))"

section \<open>An example text\<close>

text \<open>The text of \<open>n\<close> words \<open>a\<close>, each followed by a space.\<close>

definition filler :: "nat \<Rightarrow> js_string" where
  "filler n = concat (replicate n (units ''a ''))"

section \<open>Properties of the section scorer\<close>

subsection \<open>The loop over the sections\<close>

lemma set_property_fresh:
  "k \<notin> fst ` set kvs \<Longrightarrow> set_property kvs k v = kvs @ [(k, v)]"
  by (induction kvs) auto

lemma scores_analyze_section:
  "scores (analyze_section text st (n, p)) =
     set_property (scores st) n (calculateSectionScore (hasSection p text) (wordCount p text))"
  by (simp add: analyze_section_def push_finding_def push_recommendation_def Let_def)

lemma recommendations_analyze_section:
  "recommendations (analyze_section text st (n, p)) =
     recommendations st @
       (if \<not> hasSection p text then [''Add a '' @ n @ '' section to your resume'']
        else if wordCount p text < 20 then [''Expand your '' @ n @ '' section with more details'']
        else [])"
  by (simp add: analyze_section_def push_finding_def push_recommendation_def Let_def)

lemma findings_analyze_section:
  "findings (analyze_section text st (n, p)) =
     findings st @
       (if hasSection p text \<and> \<not> wordCount p text < 20
        then [''Strong '' @ n @ '' section with '' @ digits (wordCount p text) @ '' words'']
        else [])"
  by (simp add: analyze_section_def push_finding_def push_recommendation_def Let_def)

lemma scores_loop:
  "distinct (map fst es) \<Longrightarrow> fst ` set es \<inter> fst ` set (scores st) = {} \<Longrightarrow>
   scores (foldl (analyze_section text) st es) =
     scores st @ map (\<lambda>(n, p). (n, calculateSectionScore (hasSection p text) (wordCount p text))) es"
proof (induction es arbitrary: st)
  case Nil
  then show ?case by simp
next
  case (Cons e es)
  obtain n p where e: "e = (n, p)" by (cases e)
  have fresh: "n \<notin> fst ` set (scores st)" using Cons.prems(2) e by auto
  have sc: "scores (analyze_section text st (n, p)) =
      scores st @ [(n, calculateSectionScore (hasSection p text) (wordCount p text))]"
    using fresh by (simp add: scores_analyze_section set_property_fresh)
  have "fst ` set es \<inter> fst ` set (scores (analyze_section text st (n, p))) = {}"
    using Cons.prems unfolding e sc by auto
  with Cons.IH [of "analyze_section text st (n, p)"] Cons.prems(1)
  show ?case by (simp add: sc e)
qed

lemma recommendations_loop:
  "recommendations (foldl (analyze_section text) st es) =
     recommendations st @ concat (map (\<lambda>(n, p).
       if \<not> hasSection p text then [''Add a '' @ n @ '' section to your resume'']
       else if wordCount p text < 20 then [''Expand your '' @ n @ '' section with more details'']
       else []) es)"
proof (induction es arbitrary: st)
  case Nil
  then show ?case by simp
next
  case (Cons e es)
  obtain n p where e: "e = (n, p)" by (cases e)
  show ?case by (simp add: Cons.IH e recommendations_analyze_section)
qed

lemma findings_loop:
  "findings (foldl (analyze_section text) st es) =
     findings st @ concat (map (\<lambda>(n, p).
       if hasSection p text \<and> \<not> wordCount p text < 20
       then [''Strong '' @ n @ '' section with '' @ digits (wordCount p text) @ '' words'']
       else []) es)"
proof (induction es arbitrary: st)
  case Nil
  then show ?case by simp
next
  case (Cons e es)
  obtain n p where e: "e = (n, p)" by (cases e)
  show ?case by (simp add: Cons.IH e findings_analyze_section)
qed

lemma distinct_section_keys: "distinct (map fst sections)"
  by (simp add: sections_def)

subsection \<open>The fields of the result\<close>

lemma scores_analyzeResume:
  "scores (analyzeResume text) =
     map (\<lambda>(n, p). (n, calculateSectionScore (hasSection p text) (wordCount p text))) sections"
  by (simp add: analyzeResume_def Let_def check_length_def check_verbs_def
      push_finding_def push_recommendation_def scores_loop distinct_section_keys)

lemma recommendations_analyzeResume:
  "recommendations (analyzeResume text) =
     concat (map (\<lambda>(n, p).
       if \<not> hasSection p text then [''Add a '' @ n @ '' section to your resume'']
       else if wordCount p text < 20 then [''Expand your '' @ n @ '' section with more details'']
       else []) sections)
     @ (if totalWords text < 200
        then [''Your resume seems too brief. Add more detailed information.'']
        else if totalWords text > 1000
        then [''Consider condensing your resume to be more concise.'']
        else [])
     @ (if actionVerbCount text < 5
        then [''Use more action verbs to describe your achievements'']
        else [])"
  by (simp add: analyzeResume_def Let_def check_length_def check_verbs_def
      push_finding_def push_recommendation_def recommendations_loop)

lemma findings_analyzeResume:
  "findings (analyzeResume text) =
     concat (map (\<lambda>(n, p).
       if hasSection p text \<and> \<not> wordCount p text < 20
       then [''Strong '' @ n @ '' section with '' @ digits (wordCount p text) @ '' words'']
       else []) sections)
     @ (if actionVerbCount text < 5 then []
        else [''Good use of action verbs ('' @ digits (actionVerbCount text) @ '' found)''])"
  by (simp add: analyzeResume_def Let_def check_length_def check_verbs_def
      push_finding_def push_recommendation_def findings_loop)

lemma overallScore_analyzeResume:
  "overallScore (analyzeResume text) =
     Math_round (of_int (foldl (\<lambda>sum score. sum + score) 0
                   (Object_values (scores (analyzeResume text))))
                 / of_nat (length (Object_keys (scores (analyzeResume text)))))"
  by (simp add: analyzeResume_def Let_def check_length_def check_verbs_def
      push_finding_def push_recommendation_def)

lemma section_key_unique:
  "(n, p) \<in> set sections \<Longrightarrow> (n, p') \<in> set sections \<Longrightarrow> p = p'"
  using distinct_section_keys by (rule eq_key_imp_eq_value)

lemma score_of_section:
  "(n, p) \<in> set sections \<Longrightarrow>
   map_of (scores (analyzeResume text)) n =
     Some (calculateSectionScore (hasSection p text) (wordCount p text))"
proof -
  assume mem: "(n, p) \<in> set sections"
  have "map_of sections n = Some p"
    using mem distinct_section_keys by simp
  then show ?thesis by (simp add: scores_analyzeResume map_of_map)
qed

lemma split_loop_nonempty: "split_loop r acc s \<noteq> []"
  by (induction r acc s rule: split_loop.induct) (auto split: option.splits)

lemma wordCount_positive: "1 \<le> wordCount p text"
proof -
  have "js_split Spaces s \<noteq> []" for s
    by (simp add: js_split_def split_loop_nonempty)
  then show ?thesis
    unfolding wordCount_def by (simp add: Suc_le_eq)
qed

lemma score_range:
  "0 \<le> calculateSectionScore b w \<and> calculateSectionScore b w \<le> 100"
  by (simp add: calculateSectionScore.simps)

lemma Math_round_bounds:
  "0 \<le> s \<Longrightarrow> s \<le> 600 \<Longrightarrow>
   0 \<le> Math_round (of_int s / 6) \<and> Math_round (of_int s / 6) \<le> 100"
proof -
  assume s: "0 \<le> s" "s \<le> 600"
  have "(0::rat) \<le> of_int s / 6 + 1 / 2" using s by simp
  moreover have "of_int s / 6 + 1 / 2 < (101::rat)" 
  proof -
    have "(of_int s :: rat) \<le> 600" using s(2) by (metis of_int_le_iff of_int_numeral)
    then show ?thesis by simp
  qed
  ultimately show ?thesis
    unfolding Math_round_def by (simp add: floor_le_iff del: of_int_add)
qed

lemma length_keys: "length (Object_keys (scores (analyzeResume text))) = 6"
  by (simp add: Object_keys_def scores_analyzeResume sections_def)

lemma even_score: "even (calculateSectionScore b w)"
  by (simp add: calculateSectionScore.simps)

lemma even_total:
  "even (foldl (\<lambda>sum score. sum + score) 0 (Object_values (scores (analyzeResume text))))"
  by (simp add: Object_values_def scores_analyzeResume sections_def even_score)

subsection \<open>Case of letters\<close>

















text \<open>Every ASCII letter and its other case are in the narrower relation.\<close>

lemma ascii_case_variant:
  "65 \<le> c \<Longrightarrow> c \<le> 90 \<Longrightarrow> lower_case_variant c (c + 32) \<and> lower_case_variant (c + 32) c"
  by (simp add: lower_case_variant_def toLowerCase_unit_def)

subsection \<open>Evaluation\<close>

lemmas js_eval = units_def canonicalize_def toUpperCase_unit_def toLowerCase_unit_def
  toLowerCase_def char_matches_def is_space_def js_split_def sectionContent_def wordCount_def
  blank_line_def hasSection_def totalWords_def actionVerbCount_def actionVerbs_def

subsection \<open>Splitting a text\<close>

lemma split_loop_no_match:
  "\<not> regex_test r s \<Longrightarrow> split_loop r acc s = [acc @ s]"
  by (induction s arbitrary: acc) (auto split: if_splits)

lemma js_split_no_match: "\<not> regex_test r s \<Longrightarrow> js_split r s = [s]"
  by (cases s) (auto simp: js_split_def split_loop_no_match split: if_splits)

lemma js_split_heading:
  assumes "exec_at r (h @ s) = Some (length h)" and "h \<noteq> []" and "\<not> regex_test r s"
  shows "js_split r (h @ s) = [[], s]"
proof -
  obtain c cs where h: "h = c # cs" using assms(2) by (cases h) auto
  have "split_loop r [] (c # cs @ s) = [] # split_loop r [] (drop (length h) (c # cs @ s))"
    using assms(1) h by simp
  also have "drop (length h) (c # cs @ s) = s" by (simp add: h)
  finally show ?thesis
    using assms(3) by (simp add: js_split_def h split_loop_no_match)
qed

text \<open>A heading followed by the example text.\<close>

lemma filler_Suc: "filler (Suc n) = 97 # 32 # filler n"
  by (simp add: filler_def units_def)

lemma filler_0: "filler 0 = []"
  by (simp add: filler_def)

lemma no_heading_in_filler:
  "\<not> regex_test (Headings [''skills'', ''technologies'', ''programming'', ''languages''])
       (filler n)"
  by (induction n) (simp_all add: filler_0 filler_Suc js_eval)

lemma no_blank_line_in_filler: "\<not> regex_test blank_line (filler n)"
  by (induction n) (simp_all add: filler_0 filler_Suc js_eval)

lemma takeWhile_filler: "takeWhile is_space (filler n) = []"
  by (cases n) (simp_all add: filler_0 filler_Suc is_space_def)

lemma split_filler: "length (split_loop Spaces [] (filler n)) = Suc n"
  by (induction n) (simp_all add: filler_0 filler_Suc is_space_def takeWhile_filler)

lemma wordCount_filler:
  "wordCount (Headings [''skills'', ''technologies'', ''programming'', ''languages''])
     (units ''Skills:'' @ filler (Suc n)) = Suc (Suc n)"
proof -
  have "exec_at (Headings [''skills'', ''technologies'', ''programming'', ''languages''])
      (units ''Skills:'' @ filler (Suc n)) = Some (length (units ''Skills:''))"
    by (simp add: js_eval)
  then have "js_split (Headings [''skills'', ''technologies'', ''programming'', ''languages''])
      (units ''Skills:'' @ filler (Suc n)) = [[], filler (Suc n)]"
    by (rule js_split_heading) (simp_all add: units_def no_heading_in_filler)
  moreover have "js_split blank_line (filler (Suc n)) = [filler (Suc n)]"
    by (rule js_split_no_match) (rule no_blank_line_in_filler)
  moreover have "js_split Spaces (filler (Suc n)) = split_loop Spaces [] (filler (Suc n))"
    by (simp add: js_split_def filler_Suc)
  ultimately show ?thesis
    by (simp add: wordCount_def sectionContent_def split_filler)
qed

lemma hasSection_filler:
  "regex_test (Headings [''skills'', ''technologies'', ''programming'', ''languages''])
     (units ''Skills:'' @ s)"
  by (simp add: js_eval)

section \<open>The claims\<close>

text \<open>
  Claim C1. For every text the overall score is the mean of the six section scores of
  the result, rounded, and lies between 0 and 100.
\<close>

theorem overallScore_rounded_mean:
  "\<exists>c e x s p a.
     scores (analyzeResume text) =
       [(''contact'', c), (''education'', e), (''experience'', x), (''skills'', s),
        (''projects'', p), (''achievements'', a)]
     \<and> overallScore (analyzeResume text) = round (of_int (c + e + x + s + p + a) / 6 :: rat)
     \<and> 0 \<le> overallScore (analyzeResume text) \<and> overallScore (analyzeResume text) \<le> 100"
proof -
  define sc where "sc q = calculateSectionScore (hasSection q text) (wordCount q text)" for q
  define total where "total =
    sc (Headings [''email'', ''phone'', ''address''])
    + sc (Headings [''education'', ''university'', ''college'', ''degree''])
    + sc (Headings [''experience'', ''work'', ''employment''])
    + sc (Headings [''skills'', ''technologies'', ''programming'', ''languages''])
    + sc (Headings [''projects'', ''portfolio''])
    + sc (Headings [''achievements'', ''awards'', ''accomplishments''])"
  have list: "scores (analyzeResume text) =
      [(''contact'', sc (Headings [''email'', ''phone'', ''address''])),
       (''education'', sc (Headings [''education'', ''university'', ''college'', ''degree''])),
       (''experience'', sc (Headings [''experience'', ''work'', ''employment''])),
       (''skills'', sc (Headings [''skills'', ''technologies'', ''programming'', ''languages''])),
       (''projects'', sc (Headings [''projects'', ''portfolio''])),
       (''achievements'', sc (Headings [''achievements'', ''awards'', ''accomplishments'']))]"
    by (simp add: scores_analyzeResume sections_def sc_def)
  have overall: "overallScore (analyzeResume text) = Math_round (of_int total / 6)"
    unfolding overallScore_analyzeResume list total_def
    by (simp add: Object_values_def Object_keys_def)
  have range: "0 \<le> sc q \<and> sc q \<le> 100" for q
    unfolding sc_def by (rule score_range)
  have "0 \<le> total" "total \<le> 600"
    unfolding total_def
    using range [of "Headings [''email'', ''phone'', ''address'']"]
      range [of "Headings [''education'', ''university'', ''college'', ''degree'']"]
      range [of "Headings [''experience'', ''work'', ''employment'']"]
      range [of "Headings [''skills'', ''technologies'', ''programming'', ''languages'']"]
      range [of "Headings [''projects'', ''portfolio'']"]
      range [of "Headings [''achievements'', ''awards'', ''accomplishments'']"]
    by linarith+
  then have bounds: "0 \<le> Math_round (of_int total / 6) \<and> Math_round (of_int total / 6) \<le> 100"
    by (rule Math_round_bounds)
  have "Math_round (of_int total / 6) = round (of_int total / 6 :: rat)"
    by (simp add: Math_round_def round_def)
  with list overall bounds show ?thesis
    unfolding total_def by (intro exI conjI) simp_all
qed

text \<open>
  Claim C2. The section score is 0 for an absent section; for a present one it is 40
  below 20 words, 70 below 50 words, 90 below 100 words, and 100 from 100 words on.
\<close>

theorem calculateSectionScore_steps:
  "calculateSectionScore False n = 0
   \<and> calculateSectionScore True n =
       (if n < 20 then 40 else if n < 50 then 70 else if n < 100 then 90 else 100)"
  by (simp add: calculateSectionScore.simps)

text \<open>
  Claim C3. A section whose pattern does not match the text scores 0, and the
  recommendation to add that section is in the list of recommendations.
\<close>

theorem absent_section:
  assumes "(section, pattern) \<in> set sections" and "\<not> regex_test pattern text"
  shows "map_of (scores (analyzeResume text)) section = Some 0
    \<and> ''Add a '' @ section @ '' section to your resume''
        \<in> set (recommendations (analyzeResume text))"
proof
  show "map_of (scores (analyzeResume text)) section = Some 0"
    using assms by (simp add: score_of_section hasSection_def calculateSectionScore.simps)
  have "''Add a '' @ section @ '' section to your resume'' \<in> set (
      case (section, pattern) of (n, p) \<Rightarrow>
       if \<not> hasSection p text then [''Add a '' @ n @ '' section to your resume'']
       else if wordCount p text < 20 then [''Expand your '' @ n @ '' section with more details'']
       else [])"
    using assms(2) by (simp add: hasSection_def)
  with assms(1) show "''Add a '' @ section @ '' section to your resume''
        \<in> set (recommendations (analyzeResume text))"
    unfolding recommendations_analyzeResume set_append set_concat set_map by blast
qed

theorem absent_section_witness:
  "(''skills'', Headings [''skills'', ''technologies'', ''programming'', ''languages''])
     \<in> set sections
   \<and> \<not> regex_test (Headings [''skills'', ''technologies'', ''programming'', ''languages''])
         (units ''Education: BSc'')
   \<and> map_of (scores (analyzeResume (units ''Education: BSc''))) ''skills'' = Some 0
   \<and> ''Add a skills section to your resume''
        \<in> set (recommendations (analyzeResume (units ''Education: BSc'')))"
proof -
  have mem: "(''skills'', Headings [''skills'', ''technologies'', ''programming'', ''languages''])
      \<in> set sections"
    by (simp add: sections_def)
  have absent: "\<not> regex_test (Headings [''skills'', ''technologies'', ''programming'',
      ''languages'']) (units ''Education: BSc'')"
    by code_simp
  from absent_section [OF mem absent] mem absent show ?thesis by simp
qed

text \<open>
  Claim C4. A section that is present with an extracted segment of at least 100 words
  scores 100 and has its ``Strong ... section'' finding, and neither of the two
  recommendations about a section (to add it, to expand it) is emitted for it.
\<close>

theorem long_section:
  assumes "(section, pattern) \<in> set sections" and "regex_test pattern text"
    and "100 \<le> wordCount pattern text"
  shows "map_of (scores (analyzeResume text)) section = Some 100
    \<and> ''Strong '' @ section @ '' section with '' @ digits (wordCount pattern text) @ '' words''
        \<in> set (findings (analyzeResume text))
    \<and> ''Add a '' @ section @ '' section to your resume''
        \<notin> set (recommendations (analyzeResume text))
    \<and> ''Expand your '' @ section @ '' section with more details''
        \<notin> set (recommendations (analyzeResume text))"
proof (intro conjI)
  show "map_of (scores (analyzeResume text)) section = Some 100"
    using assms by (simp add: score_of_section hasSection_def calculateSectionScore.simps)
  have "''Strong '' @ section @ '' section with '' @ digits (wordCount pattern text) @ '' words''
      \<in> set (case (section, pattern) of (n, p) \<Rightarrow>
       if hasSection p text \<and> \<not> wordCount p text < 20
       then [''Strong '' @ n @ '' section with '' @ digits (wordCount p text) @ '' words'']
       else [])"
    using assms(2,3) by (simp add: hasSection_def)
  with assms(1) show "''Strong '' @ section @ '' section with '' @ digits (wordCount pattern text)
      @ '' words'' \<in> set (findings (analyzeResume text))"
    unfolding findings_analyzeResume set_append set_concat set_map by blast
  have quiet: "x \<notin> set (case e of (n, p) \<Rightarrow>
       if \<not> hasSection p text then [''Add a '' @ n @ '' section to your resume'']
       else if wordCount p text < 20 then [''Expand your '' @ n @ '' section with more details'']
       else [])"
    if e: "e \<in> set sections"
      and x: "x = ''Add a '' @ section @ '' section to your resume''
        \<or> x = ''Expand your '' @ section @ '' section with more details''" for e x
  proof (cases e)
    case (Pair n p)
    show ?thesis
    proof (cases "n = section")
      case True
      with e Pair assms(1) have "p = pattern" by (auto dest: section_key_unique)
      with assms(2,3) Pair show ?thesis by (simp add: hasSection_def)
    next
      case False
      with x Pair show ?thesis by auto
    qed
  qed
  show "''Add a '' @ section @ '' section to your resume''
      \<notin> set (recommendations (analyzeResume text))"
    unfolding recommendations_analyzeResume using quiet by auto
  show "''Expand your '' @ section @ '' section with more details''
      \<notin> set (recommendations (analyzeResume text))"
    unfolding recommendations_analyzeResume using quiet by auto
qed

theorem long_section_witness:
  "(''skills'', Headings [''skills'', ''technologies'', ''programming'', ''languages''])
     \<in> set sections
   \<and> regex_test (Headings [''skills'', ''technologies'', ''programming'', ''languages''])
         (units ''Skills:'' @ filler 99)
   \<and> wordCount (Headings [''skills'', ''technologies'', ''programming'', ''languages''])
         (units ''Skills:'' @ filler 99) = 100
   \<and> map_of (scores (analyzeResume (units ''Skills:'' @ filler 99))) ''skills'' = Some 100
   \<and> ''Strong skills section with 100 words''
        \<in> set (findings (analyzeResume (units ''Skills:'' @ filler 99)))
   \<and> ''Add a skills section to your resume''
        \<notin> set (recommendations (analyzeResume (units ''Skills:'' @ filler 99)))
   \<and> ''Expand your skills section with more details''
        \<notin> set (recommendations (analyzeResume (units ''Skills:'' @ filler 99)))"
proof -
  have mem: "(''skills'', Headings [''skills'', ''technologies'', ''programming'', ''languages''])
      \<in> set sections"
    by (simp add: sections_def)
  have present: "regex_test (Headings [''skills'', ''technologies'', ''programming'',
      ''languages'']) (units ''Skills:'' @ filler 99)"
    by (rule hasSection_filler)
  have count: "wordCount (Headings [''skills'', ''technologies'', ''programming'', ''languages''])
      (units ''Skills:'' @ filler 99) = 100"
    using wordCount_filler [of 98] by simp
  have long: "100 \<le> wordCount (Headings [''skills'', ''technologies'', ''programming'',
      ''languages'']) (units ''Skills:'' @ filler 99)"
    unfolding count by simp
  have shown: "digits 100 = ''100''"
    by code_simp
  from long_section [OF mem present long] mem present show ?thesis
    unfolding count shown by simp
qed

text \<open>
  Claim C5. For the empty text all six scores and the overall score are 0, there is no
  finding, and the recommendations are the six to add a section, the one on brevity and
  the one on action verbs. The empty text counts as one word, which is below 200, and has
  no action verb.
\<close>

theorem empty_text:
  "analyzeResume [] =
     \<lparr>scores = [(''contact'', 0), (''education'', 0), (''experience'', 0), (''skills'', 0),
                (''projects'', 0), (''achievements'', 0)],
      findings = [],
      recommendations =
        [''Add a contact section to your resume'',
         ''Add a education section to your resume'',
         ''Add a experience section to your resume'',
         ''Add a skills section to your resume'',
         ''Add a projects section to your resume'',
         ''Add a achievements section to your resume'',
         ''Your resume seems too brief. Add more detailed information.'',
         ''Use more action verbs to describe your achievements''],
      overallScore = 0\<rparr>
   \<and> totalWords [] = 1 \<and> totalWords [] < 200
   \<and> actionVerbCount [] = 0 \<and> actionVerbCount [] < 5"
  by code_simp




text \<open>
  Both texts are of characters below \<open>0x180\<close>; and the dotless i (\<open>0x131\<close>), whose upper
  case is \<open>I\<close>, does the same to \<open>achieved\<close>.
\<close>

lemma long_s_texts_latin:
  "latin_text (units ''de'' @ [383] @ units ''igned'') \<and> latin_text (units ''deSigned'')"
  by (simp add: latin_text_def units_def)

lemma dotless_i_changes_count:
  "latin_text (units ''ach'' @ [305] @ units ''eved'') \<and> latin_text (units ''achIeved'')
   \<and> same_up_to_case (units ''ach'' @ [305] @ units ''eved'') (units ''achIeved'')
   \<and> actionVerbCount (units ''ach'' @ [305] @ units ''eved'') = 0
   \<and> actionVerbCount (units ''achIeved'') = 1"
  by (simp add: latin_text_def same_up_to_case_def case_variant_def js_eval)

text \<open>
  Claim C7. The response of the handler is 200 with the analysis as its body when every
  step succeeds; when a step fails (parsing the multipart body, extracting the text,
  writing the blob, writing the record) it is 500 with the fixed error text and the message
  of the error thrown. There is no other response.
\<close>

theorem handler_response:
  "(\<exists>bodyBuffer boundary resumeFile rest text.
      Buffer_from env (req_body req) = Inr bodyBuffer
      \<and> getBoundary env (content_type req) = Inr boundary
      \<and> Parse env bodyBuffer boundary = Inr (resumeFile # rest)
      \<and> fromBufferWithMime env (type resumeFile) (data resumeFile) = Inr text
      \<and> upload env (blobName env resumeFile) (data resumeFile) (length (data resumeFile)) = None
      \<and> items_create env (persistedRecord env resumeFile (analyzeResume text)) = None
      \<and> fst (handler env w req) = \<lparr>status = 200, body = Analysis (analyzeResume text)\<rparr>)
   \<or> (\<exists>e.
      (Buffer_from env (req_body req) = Inl e
       \<or> (\<exists>bodyBuffer. Buffer_from env (req_body req) = Inr bodyBuffer
            \<and> getBoundary env (content_type req) = Inl e)
       \<or> (\<exists>bodyBuffer boundary. Buffer_from env (req_body req) = Inr bodyBuffer
            \<and> getBoundary env (content_type req) = Inr boundary
            \<and> (Parse env bodyBuffer boundary = Inl e
                \<or> Parse env bodyBuffer boundary = Inr [] \<and> e = undefined_data
                \<or> (\<exists>resumeFile rest. Parse env bodyBuffer boundary = Inr (resumeFile # rest)
                     \<and> (fromBufferWithMime env (type resumeFile) (data resumeFile) = Inl e
                         \<or> (\<exists>text. fromBufferWithMime env (type resumeFile) (data resumeFile)
                                     = Inr text
                              \<and> (upload env (blobName env resumeFile) (data resumeFile)
                                    (length (data resumeFile)) = Some e
                                  \<or> upload env (blobName env resumeFile) (data resumeFile)
                                      (length (data resumeFile)) = None
                                    \<and> items_create env
                                        (persistedRecord env resumeFile (analyzeResume text)) = Some e)))))))
      \<and> fst (handler env w req) =
          \<lparr>status = 500, body = Failure ''Failed to process resume'' (message e)\<rparr>)"
  by (auto simp: handler_def try_block_def Let_def split: sum.splits list.splits option.splits)

text \<open>
  Claim C8. The keys of \<open>scores\<close> are the six section names, each once.
\<close>

theorem scores_keys:
  "Object_keys (scores (analyzeResume text)) =
     [''contact'', ''education'', ''experience'', ''skills'', ''projects'', ''achievements'']"
  by (simp add: Object_keys_def scores_analyzeResume sections_def)

text \<open>
  Claim C9. A section that is present scores at least 40: its score is not 0, and its word
  count is at least 1, since splitting never returns an empty array.
\<close>

theorem present_section:
  assumes "(section, pattern) \<in> set sections" and "regex_test pattern text"
  shows "\<exists>v. map_of (scores (analyzeResume text)) section = Some v \<and> 40 \<le> v \<and> v \<noteq> 0
    \<and> 1 \<le> wordCount pattern text"
proof -
  have "map_of (scores (analyzeResume text)) section =
      Some (calculateSectionScore True (wordCount pattern text))"
    using assms by (simp add: score_of_section hasSection_def)
  moreover have "40 \<le> calculateSectionScore True (wordCount pattern text)"
    by (simp add: calculateSectionScore.simps)
  ultimately show ?thesis
    using wordCount_positive [of pattern "text"] by auto
qed

theorem present_section_witness:
  "(''contact'', Headings [''email'', ''phone'', ''address'']) \<in> set sections
   \<and> regex_test (Headings [''email'', ''phone'', ''address'']) (units ''E-mail? Phone:'')
   \<and> map_of (scores (analyzeResume (units ''E-mail? Phone:''))) ''contact'' = Some 40
   \<and> wordCount (Headings [''email'', ''phone'', ''address'']) (units ''E-mail? Phone:'') = 1"
proof -
  have mem: "(''contact'', Headings [''email'', ''phone'', ''address'']) \<in> set sections"
    by (simp add: sections_def)
  have present: "regex_test (Headings [''email'', ''phone'', ''address'']) (units ''E-mail? Phone:'')"
    by code_simp
  have count: "wordCount (Headings [''email'', ''phone'', ''address'']) (units ''E-mail? Phone:'') = 1"
    by code_simp
  have "calculateSectionScore True 1 = 40"
    by (simp add: calculateSectionScore.simps)
  with present_section [OF mem present] mem present count show ?thesis
    by (auto simp: score_of_section hasSection_def)
qed

text \<open>
  Claim C10. Action verbs are matched as substrings: the text \<open>filed\<close> is a single
  word that is not one of the verbs, and its count of action verbs is 1, for the \<open>led\<close>
  inside it.
\<close>

theorem verbs_are_substrings:
  "js_split Spaces (units ''filed'') = [units ''filed''] \<and> ''filed'' \<notin> set actionVerbs
   \<and> match_count (Chars ''led'') (toLowerCase (units ''filed'')) = 1
   \<and> actionVerbCount (units ''filed'') = 1 \<and> 0 < actionVerbCount (units ''filed'')"
  by (simp add: js_eval)

end
